theory Spec2Isabelle
  imports Main
begin

section \<open>Python values used by the request logger\<close>

text \<open>
  Exceptions of the source are values. \<open>StorageError\<close> stands for whatever the database layer
  raises when a write fails; the others are the Python exceptions of the same name.
\<close>

datatype py_error = StorageError | KeyError | TypeError | ValueError | OverflowError

text \<open>
  \<open>str.split(sep)\<close> for a one-character separator: the result is never empty, and a
  separator at either end gives an empty piece. \<open>sep.join(parts)\<close> is its inverse on
  the pieces.
\<close>

fun str_split :: "char \<Rightarrow> string \<Rightarrow> string list" where
  "str_split sep [] = [[]]"
| "str_split sep (c # cs) =
     (if c = sep then [] # str_split sep cs
      else (case str_split sep cs of
              w # ws \<Rightarrow> (c # w) # ws
            | [] \<Rightarrow> [[c]]))"

fun str_join :: "string \<Rightarrow> string list \<Rightarrow> string" where
  "str_join sep [] = []"
| "str_join sep [w] = w"
| "str_join sep (w # v # ws) = w @ sep @ str_join sep (v # ws)"

text \<open>\<open>str.lower()\<close> on ASCII text.\<close>

definition lower_char :: "char \<Rightarrow> char" where
  "lower_char c =
     (case map_of (zip ''ABCDEFGHIJKLMNOPQRSTUVWXYZ'' ''abcdefghijklmnopqrstuvwxyz'') c of
        Some d \<Rightarrow> d
      | None \<Rightarrow> c)"

definition lower :: "string \<Rightarrow> string" where
  "lower s = map lower_char s"

text \<open>Truthiness of an optional string: \<open>None\<close> and \<open>''\<close> are false.\<close>

fun truthy :: "string option \<Rightarrow> bool" where
  "truthy None = False"
| "truthy (Some s) = (s \<noteq> [])"

text \<open>The string held by an optional string that is known to be true.\<close>

definition str_of :: "string option \<Rightarrow> string" where
  "str_of v = (case v of None \<Rightarrow> [] | Some s \<Rightarrow> s)"

section \<open>Data model\<close>

text \<open>\<open>django.contrib.auth\<close> users, as far as the logger reads them.\<close>

record auth_user =
  user_id :: nat
  username :: string
  is_authenticated :: bool

text \<open>
  \<open>request.models.Request\<close>; the column \<open>method\<close> is the field \<open>http_method\<close>. Times are
  points of the UTC time line in microseconds.
  \<open>redirect\<close> is the plain attribute that \<open>from_http_request\<close> sets on a redirect; it is
  not a column.
\<close>

record request =
  response :: int
  http_method :: string
  path :: string
  time :: int
  is_secure :: bool
  is_ajax :: bool
  ip :: string
  user :: "auth_user option"
  referer :: "string option"
  user_agent :: "string option"
  language :: "string option"
  session_key :: "string option"
  redirect :: "string option"

text \<open>
  \<open>request.settings\<close>. \<open>REQUEST_BUFFER\<close> is the module-level list that the buffered
  strategy appends to. \<open>REQUEST_BUFFER_SIZE\<close> is a Python int.
\<close>

record settings =
  REQUEST_VALID_METHOD_NAMES :: "string list"
  REQUEST_ONLY_ERRORS :: bool
  REQUEST_IGNORE_AJAX :: bool
  REQUEST_IGNORE_IP :: "string list"
  REQUEST_IGNORE_USERNAME :: "string list"
  REQUEST_LOG_IP :: bool
  REQUEST_IP_DUMMY :: string
  REQUEST_ANONYMOUS_IP :: bool
  REQUEST_LOG_USER :: bool
  REQUEST_USE_CACHE :: bool
  REQUEST_CACHE_PREFIX :: string
  REQUEST_BUFFER_SIZE :: int
  REQUEST_BUFFER :: "request list"

text \<open>
  The shared cache holds, under each key, the stored object and the timeout it was stored
  with. The permanent store is the list of inserted rows. \<open>bulk_log\<close> records every call
  of \<open>bulk_create\<close> with the batch it was given.
\<close>

record cache_entry =
  cached :: request
  timeout :: int

record world =
  conf :: settings
  cache :: "(string \<times> cache_entry) list"
  db :: "request list"
  bulk_log :: "request list list"

section \<open>Storage collaborator (Django ORM)\<close>

text \<open>
  Whether a write reaches the database is decided outside the program, so each operation
  takes the outcome \<open>ok\<close> of the write it may attempt.

  \<open>Model.save\<close> of a fresh object inserts it as a row or raises.
\<close>

definition Model_save :: "bool \<Rightarrow> request \<Rightarrow> world \<Rightarrow> world \<times> (py_error + unit)" where
  "Model_save ok r w =
     (if ok then (w\<lparr>db := db w @ [r]\<rparr>, Inr ()) else (w, Inl StorageError))"

text \<open>
  \<open>QuerySet.bulk_create(objs)\<close> returns at once on an empty list; otherwise it inserts the
  objects as they are, in one statement, or raises. It does not call the objects'
  \<open>save\<close> method.
\<close>

definition bulk_create :: "bool \<Rightarrow> request list \<Rightarrow> world \<Rightarrow> world \<times> (py_error + request list)" where
  "bulk_create ok objs w =
     (let w' = w\<lparr>bulk_log := bulk_log w @ [objs]\<rparr>
      in if objs = [] then (w', Inr objs)
         else if ok then (w'\<lparr>db := db w' @ objs\<rparr>, Inr objs)
         else (w', Inl StorageError))"

section \<open>\<open>Request.save\<close> (models.py)\<close>

text \<open>
  The class body defines \<open>save\<close> twice; the later definition is the one bound to the class.
  It rewrites the address and the user on the object and hands it to \<open>Model.save\<close>.
\<close>

definition save :: "bool \<Rightarrow> request \<Rightarrow> world \<Rightarrow> world \<times> (py_error + unit)" where
  "save ok self w =
     (let cfg = conf w;
          self1 =
            (if \<not> REQUEST_LOG_IP cfg then self\<lparr>ip := REQUEST_IP_DUMMY cfg\<rparr>
             else if REQUEST_ANONYMOUS_IP cfg then
               (let parts = butlast (str_split CHR ''.'' (ip self));
                    parts = parts @ [''1'']
                in self\<lparr>ip := str_join ''.'' parts\<rparr>)
             else self);
          self2 = (if \<not> REQUEST_LOG_USER cfg then self1\<lparr>user := None\<rparr> else self1)
      in Model_save ok self2 w)"

section \<open>Event builder: \<open>Request.from_http_request\<close> (models.py)\<close>

text \<open>
  The framework's request and response objects, as far as the logger reads them.
  \<open>req_session\<close> is \<open>None\<close> when the request has no \<open>session\<close> attribute and holds the
  session's (possibly null) key otherwise; \<open>req_user\<close> is \<open>None\<close> when
  \<open>getattr(request, 'user', False)\<close> is false. \<open>client_ip\<close> is the value of
  \<open>get_client_ip(request)\<close>, a helper of \<open>request.utils\<close>. \<open>Location\<close> is the header of
  that name; reading a header that is absent raises \<open>KeyError\<close>.
\<close>

record http_request =
  req_method :: string
  req_path :: string
  req_is_secure :: bool
  req_is_ajax :: bool
  REMOTE_ADDR :: "string option"
  HTTP_REFERER :: "string option"
  HTTP_USER_AGENT :: "string option"
  HTTP_ACCEPT_LANGUAGE :: "string option"
  req_session :: "string option option"
  req_user :: "auth_user option"
  client_ip :: string

record http_response =
  status_code :: int
  Location :: "string option"

text \<open>
  \<open>self.model()\<close>: a fresh object with the declared defaults. \<open>time\<close> and \<open>ip\<close> have no
  default; \<open>from_http_request\<close> assigns both before anything reads them.
\<close>

definition Request_new :: request where
  "Request_new =
     \<lparr>response = 200, http_method = ''GET'', path = [], time = 0, is_secure = False,
      is_ajax = False, ip = [], user = None, referer = None, user_agent = None,
      language = None, session_key = None, redirect = None\<rparr>"

definition META_get :: "string option \<Rightarrow> string \<Rightarrow> string" where
  "META_get v dflt = (case v of None \<Rightarrow> dflt | Some s \<Rightarrow> s)"

definition from_http_request ::
  "request \<Rightarrow> int \<Rightarrow> http_request \<Rightarrow> http_response option \<Rightarrow> py_error + request" where
  "from_http_request self now req resp =
     (let self = self\<lparr>time := now, http_method := req_method req, path := req_path req,
                      is_secure := req_is_secure req, is_ajax := req_is_ajax req,
                      ip := client_ip req,
                      referer := Some (take 255 (META_get (HTTP_REFERER req) [])),
                      user_agent := Some (take 255 (META_get (HTTP_USER_AGENT req) [])),
                      language := Some (take 255 (META_get (HTTP_ACCEPT_LANGUAGE req) []))\<rparr>;
          self = (case req_session req of
                    None \<Rightarrow> self
                  | Some k \<Rightarrow> self\<lparr>session_key := k\<rparr>);
          self = (case req_user req of
                    None \<Rightarrow> self
                  | Some u \<Rightarrow> if is_authenticated u then self\<lparr>user := Some u\<rparr> else self)
      in case resp of
           None \<Rightarrow> Inr self
         | Some rs \<Rightarrow>
             (let self = self\<lparr>response := status_code rs\<rparr>
              in if status_code rs = 301 \<or> status_code rs = 302 then
                   (case Location rs of
                      None \<Rightarrow> Inl KeyError
                    | Some l \<Rightarrow> Inr (self\<lparr>redirect := Some l\<rparr>))
                 else Inr self))"

section \<open>Cache collaborator\<close>

text \<open>
  The cache is a key-value store whose backend also lists and deletes keys by a glob
  pattern; the backend's matching is the parameter \<open>pm pattern key\<close>.
  \<open>cache.set\<close> replaces the entry of the key. \<open>get_many\<close> returns a dictionary of the keys
  found, and \<open>values()\<close> its values; Python leaves their order open, and here it is the
  order of the keys. Nothing in the model lets an entry expire.
\<close>

definition cache_set ::
  "string \<Rightarrow> request \<Rightarrow> int \<Rightarrow> (string \<times> cache_entry) list \<Rightarrow> (string \<times> cache_entry) list" where
  "cache_set key val t c =
     filter (\<lambda>kv. fst kv \<noteq> key) c @ [(key, \<lparr>cached = val, timeout = t\<rparr>)]"

definition cache_keys ::
  "(string \<Rightarrow> string \<Rightarrow> bool) \<Rightarrow> string \<Rightarrow> (string \<times> cache_entry) list \<Rightarrow> string list" where
  "cache_keys pm pattern c = filter (pm pattern) (map fst c)"

definition cache_get_many ::
  "(string \<times> cache_entry) list \<Rightarrow> string list \<Rightarrow> (string \<times> request) list" where
  "cache_get_many c keys =
     List.map_filter (\<lambda>k. map_option (\<lambda>e. (k, cached e)) (map_of c k)) keys"

definition dict_values :: "(string \<times> request) list \<Rightarrow> request list" where
  "dict_values d = map snd d"

definition cache_delete_pattern ::
  "(string \<Rightarrow> string \<Rightarrow> bool) \<Rightarrow> string \<Rightarrow> (string \<times> cache_entry) list
     \<Rightarrow> (string \<times> cache_entry) list" where
  "cache_delete_pattern pm pattern c = filter (\<lambda>kv. \<not> pm pattern (fst kv)) c"

section \<open>Persistence router: \<open>RequestManager\<close> (managers.py)\<close>

text \<open>
  \<open>create_from_http_request\<close>. \<open>request_cache_key\<close> is a helper of \<open>request.utils\<close> and is
  a parameter here; \<open>now\<close> is the value of \<open>utcnow()\<close> and \<open>ok\<close> the outcome of the database
  write, if the call attempts one. The \<open>try\<close> around \<open>bulk_create\<close> discards its outcome:
  only the effect of the call on the world is kept. The record goes to the cache with
  \<open>timeout=0\<close>.
\<close>

definition create_from_http_request ::
  "(request \<Rightarrow> string) \<Rightarrow> int \<Rightarrow> bool \<Rightarrow> http_request \<Rightarrow> http_response option \<Rightarrow> bool
     \<Rightarrow> world \<Rightarrow> world \<times> (py_error + unit)" where
  "create_from_http_request request_cache_key now ok req resp commit w =
     (case from_http_request Request_new now req resp of
        Inl e \<Rightarrow> (w, Inl e)
      | Inr r \<Rightarrow>
          if commit then
            if REQUEST_USE_CACHE (conf w) then
              (w\<lparr>cache := cache_set (request_cache_key r) r 0 (cache w)\<rparr>, Inr ())
            else if REQUEST_BUFFER_SIZE (conf w) = 0 then save ok r w
            else
              (let w1 = w\<lparr>conf := (conf w)\<lparr>REQUEST_BUFFER := REQUEST_BUFFER (conf w) @ [r]\<rparr>\<rparr>
               in if int (length (REQUEST_BUFFER (conf w1))) > REQUEST_BUFFER_SIZE (conf w1) then
                    (let w2 = fst (bulk_create ok (REQUEST_BUFFER (conf w1)) w1)
                     in (w2\<lparr>conf := (conf w2)\<lparr>REQUEST_BUFFER := []\<rparr>\<rparr>, Inr ()))
                  else (w1, Inr ()))
          else (w, Inr ()))"

text \<open>
  \<open>persist_cached\<close>. Nothing catches what \<open>bulk_create\<close> raises, so on a failure the call
  ends there, before \<open>delete_pattern\<close>.
\<close>

definition persist_cached ::
  "(string \<Rightarrow> string \<Rightarrow> bool) \<Rightarrow> bool \<Rightarrow> string option \<Rightarrow> world
     \<Rightarrow> world \<times> (py_error + request list)" where
  "persist_cached pm ok cache_pattern w =
     (if REQUEST_USE_CACHE (conf w) then
        (let cache_pattern =
               (case cache_pattern of
                  None \<Rightarrow> REQUEST_CACHE_PREFIX (conf w) @ ''*''
                | Some p \<Rightarrow> if p = [] then REQUEST_CACHE_PREFIX (conf w) @ ''*'' else p);
             requests_keys = cache_keys pm cache_pattern (cache w);
             requests_dict = cache_get_many (cache w) requests_keys;
             requests = dict_values requests_dict
         in case bulk_create ok requests w of
              (w1, Inl e) \<Rightarrow> (w1, Inl e)
            | (w1, Inr created) \<Rightarrow>
                (w1\<lparr>cache := cache_delete_pattern pm cache_pattern (cache w1)\<rparr>, Inr created))
      else (w, Inr []))"

section \<open>Admission filter: \<open>RequestMiddleware.process_response\<close> (middleware.py)\<close>

text \<open>
  \<open>exceptions\<close> is the resolver built from \<open>REQUEST_IGNORE_PATHS\<close> by \<open>request.router\<close>:
  \<open>exceptions p\<close> holds when the path matches one of the patterns.
\<close>

definition process_response ::
  "(string \<Rightarrow> bool) \<Rightarrow> (request \<Rightarrow> string) \<Rightarrow> int \<Rightarrow> bool \<Rightarrow> http_request \<Rightarrow> http_response
     \<Rightarrow> world \<Rightarrow> world \<times> (py_error + http_response)" where
  "process_response exceptions request_cache_key now ok req resp w =
     (let cfg = conf w
      in if lower (req_method req) \<notin> set (REQUEST_VALID_METHOD_NAMES cfg) then (w, Inr resp)
         else if status_code resp < 400 \<and> REQUEST_ONLY_ERRORS cfg then (w, Inr resp)
         else if exceptions (req_path req) then (w, Inr resp)
         else if req_is_ajax req \<and> REQUEST_IGNORE_AJAX cfg then (w, Inr resp)
         else if (case REMOTE_ADDR req of
                    None \<Rightarrow> False
                  | Some a \<Rightarrow> a \<in> set (REQUEST_IGNORE_IP cfg)) then (w, Inr resp)
         else if (case req_user req of
                    None \<Rightarrow> False
                  | Some u \<Rightarrow> username u \<in> set (REQUEST_IGNORE_USERNAME cfg)) then (w, Inr resp)
         else
           (case create_from_http_request request_cache_key now ok req (Some resp) True w of
              (w', Inl e) \<Rightarrow> (w', Inl e)
            | (w', Inr u) \<Rightarrow> (w', Inr resp)))"

text \<open>
  The admission rules in the words of the specification: the number of the first rule, in
  the stated order, that rejects the exchange, or \<open>None\<close> when all six let it pass. The
  method is compared in lower case, as the allowed names are written; rule 6 reads the
  username of the user object that the request carries.
\<close>

definition rejected_by ::
  "(string \<Rightarrow> bool) \<Rightarrow> settings \<Rightarrow> http_request \<Rightarrow> http_response \<Rightarrow> nat option" where
  "rejected_by exceptions cfg req resp =
     (if lower (req_method req) \<notin> set (REQUEST_VALID_METHOD_NAMES cfg) then Some 1
      else if REQUEST_ONLY_ERRORS cfg \<and> status_code resp < 400 then Some 2
      else if exceptions (req_path req) then Some 3
      else if req_is_ajax req \<and> REQUEST_IGNORE_AJAX cfg then Some 4
      else if (case REMOTE_ADDR req of
                 None \<Rightarrow> False
               | Some a \<Rightarrow> a \<in> set (REQUEST_IGNORE_IP cfg)) then Some 5
      else if (case req_user req of
                 None \<Rightarrow> False
               | Some u \<Rightarrow> username u \<in> set (REQUEST_IGNORE_USERNAME cfg)) then Some 6
      else None)"

section \<open>Calendar collaborator (\<open>datetime\<close>, \<open>calendar\<close>, \<open>time\<close>)\<close>

text \<open>
  A \<open>datetime.date\<close> or \<open>datetime.datetime\<close> value: the calendar day and the time within
  the day in microseconds (0 for a plain date). \<open>to_usec\<close> places it on the time line of
  \<open>request.time\<close>, whose origin is the first instant of year 1.
\<close>

record pydate =
  dyear :: int
  dmonth :: int
  dday :: int
  dtime :: int

definition usec_per_day :: int where
  "usec_per_day = 86400000000"

definition is_leap :: "int \<Rightarrow> bool" where
  "is_leap y = (y mod 4 = 0 \<and> (y mod 100 \<noteq> 0 \<or> y mod 400 = 0))"

definition days_in_month :: "int \<Rightarrow> int \<Rightarrow> int" where
  "days_in_month y m =
     (if m = 2 then (if is_leap y then 29 else 28)
      else if m = 4 \<or> m = 6 \<or> m = 9 \<or> m = 11 then 30
      else 31)"

definition days_before_year :: "int \<Rightarrow> int" where
  "days_before_year y = (y - 1) * 365 + (y - 1) div 4 - (y - 1) div 100 + (y - 1) div 400"

definition days_before_month :: "int \<Rightarrow> int \<Rightarrow> int" where
  "days_before_month y m = sum_list (map (days_in_month y) [1..m - 1])"

definition toordinal :: "pydate \<Rightarrow> int" where
  "toordinal d = days_before_year (dyear d) + days_before_month (dyear d) (dmonth d) + dday d"

definition to_usec :: "pydate \<Rightarrow> int" where
  "to_usec d = (toordinal d - 1) * usec_per_day + dtime d"

text \<open>\<open>datetime.date(y, m, d)\<close>; \<open>None\<close> stands for the \<open>ValueError\<close> of a day that does not exist.\<close>

definition datetime_date :: "int \<Rightarrow> int \<Rightarrow> int \<Rightarrow> pydate option" where
  "datetime_date y m d =
     (if 1 \<le> y \<and> y \<le> 9999 \<and> 1 \<le> m \<and> m \<le> 12 \<and> 1 \<le> d \<and> d \<le> days_in_month y m
      then Some \<lparr>dyear = y, dmonth = m, dday = d, dtime = 0\<rparr>
      else None)"

text \<open>\<open>date + datetime.timedelta(1)\<close>: the next calendar day, or \<open>OverflowError\<close> past year 9999.\<close>

definition add_one_day :: "pydate \<Rightarrow> py_error + pydate" where
  "add_one_day d =
     (if dday d < days_in_month (dyear d) (dmonth d) then Inr (d\<lparr>dday := dday d + 1\<rparr>)
      else if dmonth d < 12 then Inr (d\<lparr>dmonth := dmonth d + 1, dday := 1\<rparr>)
      else if dyear d < 9999 then Inr (d\<lparr>dyear := dyear d + 1, dmonth := 1, dday := 1\<rparr>)
      else Inl OverflowError)"

text \<open>
  \<open>datetime.timedelta(**options)\<close>: the keyword arguments as a list of pairs. An unknown
  keyword raises \<open>TypeError\<close>; a magnitude of a thousand million days or more raises
  \<open>OverflowError\<close>. The result is in microseconds.
\<close>

definition timedelta_unit :: "string \<Rightarrow> int option" where
  "timedelta_unit k =
     map_of [(''days'', 86400000000), (''seconds'', 1000000), (''microseconds'', 1),
             (''milliseconds'', 1000), (''minutes'', 60000000), (''hours'', 3600000000),
             (''weeks'', 604800000000)] k"

fun timedelta :: "(string \<times> int) list \<Rightarrow> py_error + int" where
  "timedelta [] = Inr 0"
| "timedelta ((k, v) # kvs) =
     (case timedelta_unit k of
        None \<Rightarrow> Inl TypeError
      | Some u \<Rightarrow>
          (case timedelta kvs of
             Inl e \<Rightarrow> Inl e
           | Inr t \<Rightarrow> Inr (v * u + t)))"

definition timedelta_checked :: "(string \<times> int) list \<Rightarrow> py_error + int" where
  "timedelta_checked options =
     (case timedelta options of
        Inl e \<Rightarrow> Inl e
      | Inr t \<Rightarrow>
          if - 999999999 \<le> t div usec_per_day \<and> t div usec_per_day \<le> 999999999 then Inr t
          else Inl OverflowError)"

text \<open>\<open>datetime - timedelta\<close>: \<open>OverflowError\<close> outside the years 1 to 9999.\<close>

definition datetime_minus :: "int \<Rightarrow> int \<Rightarrow> py_error + int" where
  "datetime_minus t delta =
     (if 0 \<le> t - delta \<and> t - delta < 3652059 * usec_per_day then Inr (t - delta)
      else Inl OverflowError)"

section \<open>Query layer (managers.py)\<close>

text \<open>
  \<open>RequestManager.active_users\<close>, over the rows of the permanent store. The elements of the
  result are the \<open>user\<close> attributes of the selected rows.
\<close>

definition active_users ::
  "int \<Rightarrow> (string \<times> int) list \<Rightarrow> world \<Rightarrow> py_error + auth_user option set" where
  "active_users now options w =
     (let qs = filter (\<lambda>r. user r \<noteq> None) (db w)
      in if options \<noteq> [] then
           (case timedelta_checked options of
              Inl e \<Rightarrow> Inl e
            | Inr delta \<Rightarrow>
                (case datetime_minus now delta of
                   Inl e \<Rightarrow> Inl e
                 | Inr t \<Rightarrow> Inr (set (map user (filter (\<lambda>r. time r \<ge> t) qs)))))
         else Inr (set (map user qs)))"

text \<open>
  The period filters of \<open>RequestQuerySet\<close>. The query set is the list of its rows.
  \<open>strptime s fmt\<close> is \<open>time.strptime(s, fmt)[:3]\<close>, with \<open>None\<close> for its \<open>ValueError\<close>, and
  \<open>parse_date\<close> is \<open>datetime.date(*time.strptime(s, fmt)[:3])\<close>, with \<open>None\<close> for the
  \<open>ValueError\<close> of either step. A filter that ends in a bare \<open>return\<close> gives Python's
  \<open>None\<close>, here \<open>Inr None\<close>.
\<close>

definition parse_date ::
  "(string \<Rightarrow> string \<Rightarrow> (int \<times> int \<times> int) option) \<Rightarrow> string \<Rightarrow> string \<Rightarrow> pydate option" where
  "parse_date strptime s fmt =
     (case strptime s fmt of
        None \<Rightarrow> None
      | Some (y, m, d) \<Rightarrow> datetime_date y m d)"

text \<open>
  \<open>month\<close>, lines 35 to 46: the range lookup from the first day of the month to the day
  after its last.
\<close>

definition month_lookup :: "request list \<Rightarrow> pydate \<Rightarrow> py_error + request list option" where
  "month_lookup self date =
     (let number_days = days_in_month (dyear date) (dmonth date);
          first_day = date\<lparr>dday := 1\<rparr>
      in case add_one_day (date\<lparr>dday := number_days\<rparr>) of
           Inl e \<Rightarrow> Inl e
         | Inr last_day \<Rightarrow>
             Inr (Some (filter (\<lambda>r. time r \<ge> to_usec first_day \<and> time r < to_usec last_day) self)))"

definition month ::
  "(string \<Rightarrow> string \<Rightarrow> (int \<times> int \<times> int) option) \<Rightarrow> request list \<Rightarrow> string option
     \<Rightarrow> string option \<Rightarrow> string \<Rightarrow> pydate option \<Rightarrow> py_error + request list option" where
  "month strptime self year month_arg month_format date =
     (case date of
        Some d \<Rightarrow> month_lookup self d
      | None \<Rightarrow>
          if truthy year \<and> truthy month_arg then
            (case parse_date strptime (str_of year @ str_of month_arg) (''%Y'' @ month_format) of
               None \<Rightarrow> Inr None
             | Some d \<Rightarrow> month_lookup self d)
          else Inl TypeError)"

text \<open>
  \<open>week\<close>: when the components parse, \<open>replace(tzinfo=utc)\<close> is called on a plain date,
  which takes no such keyword and raises \<open>TypeError\<close>; the lookup below it is not reached.
\<close>

definition week ::
  "(string \<Rightarrow> string \<Rightarrow> (int \<times> int \<times> int) option) \<Rightarrow> request list \<Rightarrow> string \<Rightarrow> string
     \<Rightarrow> py_error + request list option" where
  "week strptime self year week_arg =
     (case parse_date strptime (year @ ''-0-'' @ week_arg) ''%Y-%w-%U'' of
        None \<Rightarrow> Inr None
      | Some date \<Rightarrow> Inl TypeError)"

text \<open>
  \<open>day\<close>: when the components parse, \<open>datetime.datetime.date\<close>, the method of a datetime
  object, is called on three integers and raises \<open>TypeError\<close>. With a \<open>date\<close> argument the
  lookup is the closed range from the first to the last microsecond of that day.
\<close>

definition day ::
  "(string \<Rightarrow> string \<Rightarrow> (int \<times> int \<times> int) option) \<Rightarrow> request list \<Rightarrow> string option
     \<Rightarrow> string option \<Rightarrow> string option \<Rightarrow> string \<Rightarrow> string \<Rightarrow> pydate option
     \<Rightarrow> py_error + request list option" where
  "day strptime self year month_arg day_arg month_format day_format date =
     (case date of
        Some d \<Rightarrow>
          (let dt_start = to_usec (d\<lparr>dtime := 0\<rparr>);
               dt_end = to_usec (d\<lparr>dtime := usec_per_day - 1\<rparr>)
           in Inr (Some (filter (\<lambda>r. dt_start \<le> time r \<and> time r \<le> dt_end) self)))
      | None \<Rightarrow>
          if truthy year \<and> truthy month_arg \<and> truthy day_arg then
            (case strptime (str_of year @ str_of month_arg @ str_of day_arg)
                           (''%Y'' @ month_format @ day_format) of
               None \<Rightarrow> Inr None
             | Some ymd \<Rightarrow> Inl TypeError)
          else Inl TypeError)"

section \<open>Sequences of calls\<close>

text \<open>
  One call of \<open>create_from_http_request\<close> by the host, with \<open>commit\<close> left at its default:
  the clock reading, the outcome of the database write, the request and the response.
  \<open>built\<close> is the record that the call builds, if building it does not raise;
  \<open>submit_all\<close> makes the calls one after the other and stops at the first that raises.
\<close>

type_synonym submit_call = "int \<times> bool \<times> http_request \<times> http_response option"

definition built :: "submit_call \<Rightarrow> request option" where
  "built c =
     (case c of (now, ok, req, resp) \<Rightarrow>
        (case from_http_request Request_new now req resp of
           Inl e \<Rightarrow> None
         | Inr r \<Rightarrow> Some r))"

fun submit_all :: "(request \<Rightarrow> string) \<Rightarrow> submit_call list \<Rightarrow> world \<Rightarrow> world \<times> (py_error + unit)" where
  "submit_all request_cache_key [] w = (w, Inr ())"
| "submit_all request_cache_key ((now, ok, req, resp) # cs) w =
     (case create_from_http_request request_cache_key now ok req resp True w of
        (w', Inl e) \<Rightarrow> (w', Inl e)
      | (w', Inr u) \<Rightarrow> submit_all request_cache_key cs w')"

section \<open>Sample inputs\<close>

text \<open>
  A configuration, a request by a logged-in user, a response and an empty world, used
  to run the operations on concrete inputs. \<open>ex_key\<close> derives a cache key from the time of
  the record, \<open>ex_pm\<close> matches a key against a pattern that ends in a star, and
  \<open>ex_strptime\<close> is a parser that rejects every input.
\<close>

definition ex_conf :: settings where
  "ex_conf =
     \<lparr>REQUEST_VALID_METHOD_NAMES = [''get'', ''post''], REQUEST_ONLY_ERRORS = False,
      REQUEST_IGNORE_AJAX = False, REQUEST_IGNORE_IP = [], REQUEST_IGNORE_USERNAME = [],
      REQUEST_LOG_IP = True, REQUEST_IP_DUMMY = ''1.1.1.1'', REQUEST_ANONYMOUS_IP = False,
      REQUEST_LOG_USER = True, REQUEST_USE_CACHE = False, REQUEST_CACHE_PREFIX = ''request_'',
      REQUEST_BUFFER_SIZE = 0, REQUEST_BUFFER = []\<rparr>"

definition ex_user :: auth_user where
  "ex_user = \<lparr>user_id = 7, username = ''ada'', is_authenticated = True\<rparr>"

definition ex_req :: http_request where
  "ex_req =
     \<lparr>req_method = ''GET'', req_path = ''/'', req_is_secure = False, req_is_ajax = False,
      REMOTE_ADDR = Some ''203.0.113.42'', HTTP_REFERER = None, HTTP_USER_AGENT = None,
      HTTP_ACCEPT_LANGUAGE = None, req_session = None, req_user = Some ex_user,
      client_ip = ''203.0.113.42''\<rparr>"

definition ex_resp :: http_response where
  "ex_resp = \<lparr>status_code = 200, Location = None\<rparr>"

definition ex_record :: "int \<Rightarrow> request" where
  "ex_record now =
     \<lparr>response = 200, http_method = ''GET'', path = ''/'', time = now, is_secure = False,
      is_ajax = False, ip = ''203.0.113.42'', user = Some ex_user, referer = Some [],
      user_agent = Some [], language = Some [], session_key = None, redirect = None\<rparr>"

definition ex_world :: "settings \<Rightarrow> world" where
  "ex_world cfg = \<lparr>conf = cfg, cache = [], db = [], bulk_log = []\<rparr>"

definition ex_key :: "request \<Rightarrow> string" where
  "ex_key r = (if time r = 1 then ''request_1'' else ''request_n'')"

definition ex_pm :: "string \<Rightarrow> string \<Rightarrow> bool" where
  "ex_pm pattern key = (take (length pattern - 1) key = butlast pattern)"

definition ex_strptime :: "string \<Rightarrow> string \<Rightarrow> (int \<times> int \<times> int) option" where
  "ex_strptime s fmt = None"

text \<open>A store with one row without a user and one row of \<open>ex_user\<close>.\<close>

definition ex_rows :: "request list" where
  "ex_rows = [(ex_record 999999999)\<lparr>user := None\<rparr>, ex_record 999999998]"

definition ex_exceptions :: "string \<Rightarrow> bool" where
  "ex_exceptions p = (p = ''/admin/'')"

text \<open>A world under the cached strategy with one entry under the prefix and one outside it.\<close>

definition ex_cached_world :: world where
  "ex_cached_world =
     (ex_world (ex_conf\<lparr>REQUEST_USE_CACHE := True\<rparr>))
       \<lparr>cache := [(''request_1'', \<lparr>cached = ex_record 1, timeout = 0\<rparr>),
                  (''other'', \<lparr>cached = ex_record 2, timeout = 0\<rparr>)]\<rparr>"

section \<open>Facts about the sample inputs\<close>

lemma ex_built: "from_http_request Request_new now ex_req (Some ex_resp) = Inr (ex_record now)"
  by (simp add: from_http_request_def Request_new_def ex_req_def ex_resp_def ex_record_def
      ex_user_def META_get_def Let_def)

lemma built_Some:
  "built (now, ok, req, resp) = Some r \<longleftrightarrow> from_http_request Request_new now req resp = Inr r"
  by (simp add: built_def split: sum.splits)

lemma ex_built_call: "built (now, ok, ex_req, Some ex_resp) = Some (ex_record now)"
  by (simp add: built_Some ex_built)

section \<open>The buffered strategy\<close>

lemma create_buffered:
  assumes "from_http_request Request_new now req resp = Inr r"
    and "\<not> REQUEST_USE_CACHE (conf w)" and "REQUEST_BUFFER_SIZE (conf w) \<noteq> 0"
  shows "create_from_http_request key now ok req resp True w =
     (if int (length (REQUEST_BUFFER (conf w))) + 1 > REQUEST_BUFFER_SIZE (conf w)
      then (w\<lparr>conf := (conf w)\<lparr>REQUEST_BUFFER := []\<rparr>,
              bulk_log := bulk_log w @ [REQUEST_BUFFER (conf w) @ [r]],
              db := (if ok then db w @ REQUEST_BUFFER (conf w) @ [r] else db w)\<rparr>, Inr ())
      else (w\<lparr>conf := (conf w)\<lparr>REQUEST_BUFFER := REQUEST_BUFFER (conf w) @ [r]\<rparr>\<rparr>, Inr ()))"
  using assms by (simp add: create_from_http_request_def bulk_create_def Let_def)

lemma submit_all_append:
  "submit_all key (cs @ ds) w =
     (case submit_all key cs w of
        (w', Inl e) \<Rightarrow> (w', Inl e)
      | (w', Inr u) \<Rightarrow> submit_all key ds w')"
  by (induction key cs w rule: submit_all.induct) (auto split: prod.splits sum.splits)

text \<open>While the buffer stays within the threshold, each call only appends its record.\<close>

lemma submit_all_below_threshold:
  assumes "\<not> REQUEST_USE_CACHE (conf w)" and "REQUEST_BUFFER_SIZE (conf w) \<noteq> 0"
    and "int (length (REQUEST_BUFFER (conf w)) + length cs) \<le> REQUEST_BUFFER_SIZE (conf w)"
    and "\<forall>c\<in>set cs. built c \<noteq> None"
  shows "submit_all key cs w =
     (w\<lparr>conf := (conf w)\<lparr>REQUEST_BUFFER := REQUEST_BUFFER (conf w) @ List.map_filter built cs\<rparr>\<rparr>,
      Inr ())"
  using assms
proof (induction cs arbitrary: w)
  case Nil
  then show ?case by (simp add: map_filter_simps)
next
  case (Cons c cs)
  obtain now ok req resp where c: "c = (now, ok, req, resp)" by (cases c) auto
  from Cons.prems obtain r where r: "built c = Some r" by auto
  then have b: "from_http_request Request_new now req resp = Inr r"
    by (simp add: c built_Some)
  let ?w1 = "w\<lparr>conf := (conf w)\<lparr>REQUEST_BUFFER := REQUEST_BUFFER (conf w) @ [r]\<rparr>\<rparr>"
  have step: "create_from_http_request key now ok req resp True w = (?w1, Inr ())"
    using Cons.prems by (simp add: create_buffered[OF b])
  have "submit_all key cs ?w1 =
     (?w1\<lparr>conf := (conf ?w1)\<lparr>REQUEST_BUFFER :=
         REQUEST_BUFFER (conf ?w1) @ List.map_filter built cs\<rparr>\<rparr>, Inr ())"
    using Cons.prems by (intro Cons.IH) auto
  then show ?case
    using step r by (simp add: c map_filter_simps)
qed

lemma length_map_filter_built:
  "\<forall>c\<in>set cs. built c \<noteq> None \<Longrightarrow> length (List.map_filter built cs) = length cs"
  by (induction cs) (auto simp: map_filter_simps)

text \<open>
  C1. Buffered strategy (cache off, threshold \<open>T > 0\<close>), empty buffer, \<open>T + 1\<close> calls that each
  build a record. The first \<open>T\<close> calls leave \<open>T\<close> records in the buffer and touch neither
  \<open>bulk_create\<close> nor the store. The last call brings the buffer to \<open>T + 1 > T\<close> records:
  \<open>bulk_create\<close> is called once, with exactly the \<open>T + 1\<close> records in the order of the
  calls, and the buffer is empty afterwards, whether the write succeeded (the batch is
  in the store) or failed (the store is as before). No call raises.
\<close>

theorem buffered_flush_after_threshold:
  assumes "\<not> REQUEST_USE_CACHE (conf w)" and "REQUEST_BUFFER_SIZE (conf w) = int T" and "0 < T"
    and "REQUEST_BUFFER (conf w) = []" and "length cs = T"
    and "\<forall>x\<in>set (cs @ [c]). built x \<noteq> None"
  shows "submit_all key cs w =
           (w\<lparr>conf := (conf w)\<lparr>REQUEST_BUFFER := List.map_filter built cs\<rparr>\<rparr>, Inr ())
       \<and> length (List.map_filter built cs) = T
       \<and> submit_all key (cs @ [c]) w =
           (w\<lparr>conf := (conf w)\<lparr>REQUEST_BUFFER := []\<rparr>,
              bulk_log := bulk_log w @ [List.map_filter built (cs @ [c])],
              db := (if fst (snd c) then db w @ List.map_filter built (cs @ [c]) else db w)\<rparr>,
            Inr ())
       \<and> length (List.map_filter built (cs @ [c])) = T + 1"
proof -
  let ?buf = "List.map_filter built cs"
  let ?w1 = "w\<lparr>conf := (conf w)\<lparr>REQUEST_BUFFER := ?buf\<rparr>\<rparr>"
  have first: "submit_all key cs w = (?w1, Inr ())"
    using assms submit_all_below_threshold[of w cs key] by simp
  have len: "length ?buf = T"
    using assms length_map_filter_built[of cs] by simp
  obtain now ok req resp where c: "c = (now, ok, req, resp)" by (cases c) auto
  from assms(6) obtain r where r: "built c = Some r" by auto
  then have b: "from_http_request Request_new now req resp = Inr r"
    by (simp add: c built_Some)
  have all: "List.map_filter built (cs @ [c]) = ?buf @ [r]"
    using r by (simp add: map_filter_def)
  have last: "submit_all key [c] ?w1 =
      (w\<lparr>conf := (conf w)\<lparr>REQUEST_BUFFER := []\<rparr>,
         bulk_log := bulk_log w @ [?buf @ [r]],
         db := (if ok then db w @ ?buf @ [r] else db w)\<rparr>, Inr ())"
    using assms(1,2,3) len by (simp add: c create_buffered[OF b])
  show ?thesis
    unfolding all using first len last by (simp add: submit_all_append c)
qed

theorem buffered_flush_after_threshold_witness:
  "\<not> REQUEST_USE_CACHE (conf (ex_world (ex_conf\<lparr>REQUEST_BUFFER_SIZE := 1\<rparr>)))
   \<and> REQUEST_BUFFER_SIZE (conf (ex_world (ex_conf\<lparr>REQUEST_BUFFER_SIZE := 1\<rparr>))) = int 1
   \<and> 0 < (1::nat)
   \<and> REQUEST_BUFFER (conf (ex_world (ex_conf\<lparr>REQUEST_BUFFER_SIZE := 1\<rparr>))) = []
   \<and> length [(1, False, ex_req, Some ex_resp)] = 1
   \<and> built (1, False, ex_req, Some ex_resp) \<noteq> None
   \<and> built (2, True, ex_req, Some ex_resp) \<noteq> None
   \<and> submit_all ex_key ([(1, False, ex_req, Some ex_resp)] @ [(2, True, ex_req, Some ex_resp)])
        (ex_world (ex_conf\<lparr>REQUEST_BUFFER_SIZE := 1\<rparr>)) =
      ((ex_world (ex_conf\<lparr>REQUEST_BUFFER_SIZE := 1\<rparr>))
         \<lparr>bulk_log := [[ex_record 1, ex_record 2]], db := [ex_record 1, ex_record 2]\<rparr>, Inr ())
   \<and> built (2, False, ex_req, Some ex_resp) \<noteq> None
   \<and> submit_all ex_key ([(1, False, ex_req, Some ex_resp)] @ [(2, False, ex_req, Some ex_resp)])
        (ex_world (ex_conf\<lparr>REQUEST_BUFFER_SIZE := 1\<rparr>)) =
      ((ex_world (ex_conf\<lparr>REQUEST_BUFFER_SIZE := 1\<rparr>))
         \<lparr>bulk_log := [[ex_record 1, ex_record 2]]\<rparr>, Inr ())"
proof -
  let ?w = "ex_world (ex_conf\<lparr>REQUEST_BUFFER_SIZE := 1\<rparr>)"
  let ?cs = "[(1::int, False, ex_req, Some ex_resp)]"
  let ?c = "(2::int, True, ex_req, Some ex_resp)"
  have h1: "\<not> REQUEST_USE_CACHE (conf ?w)" by (simp add: ex_world_def ex_conf_def)
  have h2: "REQUEST_BUFFER_SIZE (conf ?w) = int 1" by (simp add: ex_world_def)
  have h3: "0 < (1::nat)" by simp
  have h4: "REQUEST_BUFFER (conf ?w) = []" by (simp add: ex_world_def ex_conf_def)
  have h5: "length ?cs = 1" by simp
  have h6: "\<forall>x\<in>set (?cs @ [?c]). built x \<noteq> None" by (simp add: ex_built_call)
  have h7: "\<forall>x\<in>set (?cs @ [(2::int, False, ex_req, Some ex_resp)]). built x \<noteq> None"
    by (simp add: ex_built_call)
  show ?thesis
    using buffered_flush_after_threshold[OF h1 h2 h3 h4 h5 h6, of ex_key]
      buffered_flush_after_threshold[OF h1 h2 h3 h4 h5 h7, of ex_key] h1 h2 h4 h6
    by (simp add: map_filter_simps ex_built_call ex_world_def)
qed

section \<open>Redaction in \<open>save\<close>\<close>

lemma str_split_no_sep: "w \<in> set (str_split sep s) \<Longrightarrow> sep \<notin> set w"
  by (induction s arbitrary: w) (auto split: list.splits if_splits)

lemma str_split_append_no_sep:
  "sep \<notin> set u \<Longrightarrow> str_split sep (u @ sep # s) = u # str_split sep s"
  by (induction u) (auto split: list.splits)

lemma str_split_plain: "sep \<notin> set u \<Longrightarrow> str_split sep u = [u]"
  by (induction u) (auto split: list.splits)

lemma str_split_join:
  "ws \<noteq> [] \<Longrightarrow> \<forall>w\<in>set ws. sep \<notin> set w \<Longrightarrow> str_split sep (str_join [sep] ws) = ws"
  by (induction "[sep]" ws rule: str_join.induct)
     (auto simp: str_split_plain str_split_append_no_sep)

lemma mask_idem:
  "butlast (str_split CHR ''.'' (str_join ''.'' (butlast (str_split CHR ''.'' a) @ [''1''])))
     = butlast (str_split CHR ''.'' a)"
proof -
  let ?ws = "butlast (str_split CHR ''.'' a) @ [''1'']"
  have "\<forall>w\<in>set ?ws. CHR ''.'' \<notin> set w"
    by (auto dest: in_set_butlastD str_split_no_sep)
  then have "str_split CHR ''.'' (str_join ''.'' ?ws) = ?ws"
    using str_split_join[of ?ws "CHR ''.''"] by simp
  then show ?thesis by simp
qed

lemma save_True:
  "save True r w =
    (w\<lparr>db := db w @
       [r\<lparr>ip := (if \<not> REQUEST_LOG_IP (conf w) then REQUEST_IP_DUMMY (conf w)
                 else if REQUEST_ANONYMOUS_IP (conf w)
                 then str_join ''.'' (butlast (str_split CHR ''.'' (ip r)) @ [''1''])
                 else ip r),
          user := (if \<not> REQUEST_LOG_USER (conf w) then None else user r)\<rparr>]\<rparr>, Inr ())"
  by (simp add: save_def Model_save_def Let_def)

text \<open>
  C7. A \<open>save\<close> whose write succeeds adds one row, the object as rewritten. With IP logging
  off the row's address is the dummy value, whatever the anonymisation setting. With IP
  logging on and anonymisation on, the piece after the last dot is replaced by \<open>1\<close>, so
  \<open>203.0.113.42\<close> is stored as \<open>203.0.113.1\<close>. Saving the stored row again stores the same
  row: the rewrite is idempotent under every configuration.
\<close>

theorem save_rewrites_ip:
  "snd (save True r w) = Inr ()
   \<and> length (db (fst (save True r w))) = length (db w) + 1
   \<and> (\<not> REQUEST_LOG_IP (conf w) \<longrightarrow>
        ip (last (db (fst (save True r w)))) = REQUEST_IP_DUMMY (conf w))
   \<and> (REQUEST_LOG_IP (conf w) \<and> REQUEST_ANONYMOUS_IP (conf w) \<longrightarrow>
        ip (last (db (fst (save True r w)))) =
          str_join ''.'' (butlast (str_split CHR ''.'' (ip r)) @ [''1''])
        \<and> (ip r = ''203.0.113.42'' \<longrightarrow> ip (last (db (fst (save True r w)))) = ''203.0.113.1''))
   \<and> last (db (fst (save True (last (db (fst (save True r w)))) w)))
       = last (db (fst (save True r w)))"
  by (simp add: save_True mask_idem)

theorem save_rewrites_ip_witness:
  "REQUEST_LOG_IP (conf (ex_world (ex_conf\<lparr>REQUEST_ANONYMOUS_IP := True\<rparr>)))
   \<and> REQUEST_ANONYMOUS_IP (conf (ex_world (ex_conf\<lparr>REQUEST_ANONYMOUS_IP := True\<rparr>)))
   \<and> ip (ex_record 1) = ''203.0.113.42''
   \<and> ip (last (db (fst (save True (ex_record 1)
         (ex_world (ex_conf\<lparr>REQUEST_ANONYMOUS_IP := True\<rparr>)))))) = ''203.0.113.1''
   \<and> \<not> REQUEST_LOG_IP
         (conf (ex_world (ex_conf\<lparr>REQUEST_LOG_IP := False, REQUEST_ANONYMOUS_IP := True\<rparr>)))
   \<and> ip (last (db (fst (save True (ex_record 1)
         (ex_world (ex_conf\<lparr>REQUEST_LOG_IP := False, REQUEST_ANONYMOUS_IP := True\<rparr>))))))
       = ''1.1.1.1''"
  using save_rewrites_ip[of "ex_record 1" "ex_world (ex_conf\<lparr>REQUEST_ANONYMOUS_IP := True\<rparr>)"]
    save_rewrites_ip[of "ex_record 1"
      "ex_world (ex_conf\<lparr>REQUEST_LOG_IP := False, REQUEST_ANONYMOUS_IP := True\<rparr>)"]
  by (simp add: ex_world_def ex_conf_def ex_record_def)

section \<open>The cached strategy\<close>

lemma map_of_filter_neq:
  "map_of (filter (\<lambda>kv. fst kv \<noteq> k) c) k' = (if k' = k then None else map_of c k')"
  by (induction c) auto

lemma map_of_cache_set:
  "map_of (cache_set k v t c) k' =
     (if k' = k then Some \<lparr>cached = v, timeout = t\<rparr> else map_of c k')"
  by (simp add: cache_set_def map_of_filter_neq map_add_def split: option.splits)

lemma create_cached:
  assumes "REQUEST_USE_CACHE (conf w)"
  shows "create_from_http_request key now ok req resp commit w =
     (case from_http_request Request_new now req resp of
        Inl e \<Rightarrow> (w, Inl e)
      | Inr r \<Rightarrow> if commit then (w\<lparr>cache := cache_set (key r) r 0 (cache w)\<rparr>, Inr ())
                 else (w, Inr ()))"
  using assms by (simp add: create_from_http_request_def split: sum.splits)

text \<open>
  C6. With the cache switched on, a call changes nothing but the cache: the settings (and
  with them the buffer), the permanent store and the list of \<open>bulk_create\<close> calls are as
  before, whatever the buffer size is set to and whatever the database would answer. A
  call that builds its record returns normally, and afterwards the cache holds the
  record under its derived key with timeout 0 (the value this code passes for an entry
  that is not to expire) and every other key as before.
\<close>

theorem cached_submit_frame:
  assumes "REQUEST_USE_CACHE (conf w)"
  shows "conf (fst (create_from_http_request key now ok req resp commit w)) = conf w
       \<and> db (fst (create_from_http_request key now ok req resp commit w)) = db w
       \<and> bulk_log (fst (create_from_http_request key now ok req resp commit w)) = bulk_log w
       \<and> (\<forall>r. from_http_request Request_new now req resp = Inr r \<longrightarrow>
            create_from_http_request key now ok req resp True w =
              (w\<lparr>cache := cache_set (key r) r 0 (cache w)\<rparr>, Inr ())
            \<and> map_of (cache_set (key r) r 0 (cache w)) (key r) = Some \<lparr>cached = r, timeout = 0\<rparr>
            \<and> (\<forall>k. k \<noteq> key r \<longrightarrow>
                  map_of (cache_set (key r) r 0 (cache w)) k = map_of (cache w) k))"
  by (simp add: create_cached[OF assms] map_of_cache_set split: sum.splits)

theorem cached_submit_frame_witness:
  "REQUEST_USE_CACHE
     (conf (ex_world (ex_conf\<lparr>REQUEST_USE_CACHE := True, REQUEST_BUFFER_SIZE := 5\<rparr>)))
   \<and> from_http_request Request_new 1 ex_req (Some ex_resp) = Inr (ex_record 1)
   \<and> create_from_http_request ex_key 1 False ex_req (Some ex_resp) True
        (ex_world (ex_conf\<lparr>REQUEST_USE_CACHE := True, REQUEST_BUFFER_SIZE := 5\<rparr>)) =
      ((ex_world (ex_conf\<lparr>REQUEST_USE_CACHE := True, REQUEST_BUFFER_SIZE := 5\<rparr>))
         \<lparr>cache := [(''request_1'', \<lparr>cached = ex_record 1, timeout = 0\<rparr>)]\<rparr>, Inr ())"
proof -
  let ?w = "ex_world (ex_conf\<lparr>REQUEST_USE_CACHE := True, REQUEST_BUFFER_SIZE := 5\<rparr>)"
  have h: "REQUEST_USE_CACHE (conf ?w)" by (simp add: ex_world_def)
  show ?thesis
    using cached_submit_frame[OF h, of ex_key 1 False ex_req "Some ex_resp" True] h
    by (simp add: ex_built cache_set_def ex_key_def ex_world_def ex_record_def)
qed

section \<open>Storage failures in \<open>create_from_http_request\<close>\<close>

text \<open>
  C3, as stated, fails under the immediate strategy: with the buffer size 0 and the cache
  off, a call whose database write fails ends in the error of \<open>save\<close>, which nothing
  catches, and leaves the world as it was.
\<close>

theorem immediate_submit_raises:
  "create_from_http_request ex_key 1 False ex_req (Some ex_resp) True (ex_world ex_conf)
     = (ex_world ex_conf, Inl StorageError)"
  by (simp add: create_from_http_request_def ex_built save_def Model_save_def Let_def
      ex_world_def ex_conf_def)

text \<open>
  C3, amended. For a call that builds its record: under the cached and the buffered
  strategy the call returns normally whatever the database answers; under the immediate
  strategy it returns normally when the write succeeds and raises the storage error when
  the write fails.
\<close>

theorem submit_absorbs_unless_immediate:
  assumes "from_http_request Request_new now req resp = Inr r"
  shows "(REQUEST_USE_CACHE (conf w) \<or> REQUEST_BUFFER_SIZE (conf w) \<noteq> 0 \<longrightarrow>
            snd (create_from_http_request key now ok req resp commit w) = Inr ())
       \<and> (\<not> REQUEST_USE_CACHE (conf w) \<and> REQUEST_BUFFER_SIZE (conf w) = 0 \<longrightarrow>
            snd (create_from_http_request key now ok req resp True w)
              = (if ok then Inr () else Inl StorageError))"
  using assms
  by (simp add: create_from_http_request_def save_def Model_save_def Let_def)

theorem submit_absorbs_unless_immediate_witness:
  "from_http_request Request_new 1 ex_req (Some ex_resp) = Inr (ex_record 1)
   \<and> REQUEST_BUFFER_SIZE (conf (ex_world (ex_conf\<lparr>REQUEST_BUFFER_SIZE := 1\<rparr>))) \<noteq> 0
   \<and> snd (create_from_http_request ex_key 1 False ex_req (Some ex_resp) True
        (ex_world (ex_conf\<lparr>REQUEST_BUFFER_SIZE := 1\<rparr>))) = Inr ()
   \<and> REQUEST_USE_CACHE (conf (ex_world (ex_conf\<lparr>REQUEST_USE_CACHE := True\<rparr>)))
   \<and> snd (create_from_http_request ex_key 1 False ex_req (Some ex_resp) True
        (ex_world (ex_conf\<lparr>REQUEST_USE_CACHE := True\<rparr>))) = Inr ()
   \<and> \<not> REQUEST_USE_CACHE (conf (ex_world ex_conf))
   \<and> REQUEST_BUFFER_SIZE (conf (ex_world ex_conf)) = 0
   \<and> snd (create_from_http_request ex_key 1 False ex_req (Some ex_resp) True (ex_world ex_conf))
       = Inl StorageError"
  using submit_absorbs_unless_immediate[OF ex_built,
      of "ex_world (ex_conf\<lparr>REQUEST_BUFFER_SIZE := 1\<rparr>)" ex_key 1 False True]
    submit_absorbs_unless_immediate[OF ex_built,
      of "ex_world (ex_conf\<lparr>REQUEST_USE_CACHE := True\<rparr>)" ex_key 1 False True]
    submit_absorbs_unless_immediate[OF ex_built, of "ex_world ex_conf" ex_key 1 False True]
  by (simp add: ex_built ex_world_def ex_conf_def)

section \<open>The admission filter\<close>

lemma process_response_rejected:
  "rejected_by exceptions (conf w) req resp \<noteq> None \<Longrightarrow>
     process_response exceptions key now ok req resp w = (w, Inr resp)"
  by (auto simp: rejected_by_def process_response_def Let_def split: if_splits)

lemma process_response_admitted:
  "rejected_by exceptions (conf w) req resp = None \<Longrightarrow>
     process_response exceptions key now ok req resp w =
       (case create_from_http_request key now ok req (Some resp) True w of
          (w', Inl e) \<Rightarrow> (w', Inl e)
        | (w', Inr u) \<Rightarrow> (w', Inr resp))"
  by (auto simp: rejected_by_def process_response_def Let_def split: if_splits)

lemma create_immediate:
  assumes "from_http_request Request_new now req resp = Inr r"
    and "\<not> REQUEST_USE_CACHE (conf w)" and "REQUEST_BUFFER_SIZE (conf w) = 0"
  shows "create_from_http_request key now ok req resp True w = save ok r w"
  using assms by (simp add: create_from_http_request_def)

text \<open>
  C5. The middleware applies the six rules in the stated order. When one of them rejects
  the exchange, the response is handed back and the world is unchanged: nothing is
  stored, buffered or cached. When all six let it pass, the middleware is exactly one
  call of \<open>create_from_http_request\<close> with the response, and the record \<open>r\<close> built from the
  exchange goes where the strategy sends it: into the cache under its key, to \<open>save\<close>
  (whose successful write stores it), or onto the end of the buffer, which either stays
  or is the batch given to \<open>bulk_create\<close>.
\<close>

theorem admission_filter_gates_submit:
  "(rejected_by exceptions (conf w) req resp \<noteq> None \<longrightarrow>
      process_response exceptions key now ok req resp w = (w, Inr resp))
   \<and> (rejected_by exceptions (conf w) req resp = None \<longrightarrow>
        process_response exceptions key now ok req resp w =
          (case create_from_http_request key now ok req (Some resp) True w of
             (w', Inl e) \<Rightarrow> (w', Inl e)
           | (w', Inr u) \<Rightarrow> (w', Inr resp))
        \<and> (\<forall>r. from_http_request Request_new now req (Some resp) = Inr r \<longrightarrow>
             (REQUEST_USE_CACHE (conf w) \<longrightarrow>
                map_of (cache (fst (process_response exceptions key now ok req resp w))) (key r)
                  = Some \<lparr>cached = r, timeout = 0\<rparr>)
           \<and> (\<not> REQUEST_USE_CACHE (conf w) \<and> REQUEST_BUFFER_SIZE (conf w) = 0 \<longrightarrow>
                process_response exceptions key now True req resp w
                  = (fst (save True r w), Inr resp))
           \<and> (\<not> REQUEST_USE_CACHE (conf w) \<and> REQUEST_BUFFER_SIZE (conf w) \<noteq> 0 \<longrightarrow>
                REQUEST_BUFFER (conf (fst (process_response exceptions key now ok req resp w)))
                  = REQUEST_BUFFER (conf w) @ [r]
              \<or> last (bulk_log (fst (process_response exceptions key now ok req resp w)))
                  = REQUEST_BUFFER (conf w) @ [r])))"
proof (intro conjI impI allI)
  assume "rejected_by exceptions (conf w) req resp \<noteq> None"
  then show "process_response exceptions key now ok req resp w = (w, Inr resp)"
    by (rule process_response_rejected)
next
  assume a: "rejected_by exceptions (conf w) req resp = None"
  show "process_response exceptions key now ok req resp w =
          (case create_from_http_request key now ok req (Some resp) True w of
             (w', Inl e) \<Rightarrow> (w', Inl e)
           | (w', Inr u) \<Rightarrow> (w', Inr resp))"
    by (rule process_response_admitted[OF a])
next
  fix r
  assume a: "rejected_by exceptions (conf w) req resp = None"
    and b: "from_http_request Request_new now req (Some resp) = Inr r"
    and c: "REQUEST_USE_CACHE (conf w)"
  show "map_of (cache (fst (process_response exceptions key now ok req resp w))) (key r)
          = Some \<lparr>cached = r, timeout = 0\<rparr>"
    by (simp add: process_response_admitted[OF a] create_cached[OF c] b map_of_cache_set)
next
  fix r
  assume a: "rejected_by exceptions (conf w) req resp = None"
    and b: "from_http_request Request_new now req (Some resp) = Inr r"
    and c: "\<not> REQUEST_USE_CACHE (conf w) \<and> REQUEST_BUFFER_SIZE (conf w) = 0"
  show "process_response exceptions key now True req resp w = (fst (save True r w), Inr resp)"
    using c by (simp add: process_response_admitted[OF a] create_immediate[OF b] save_True)
next
  fix r
  assume a: "rejected_by exceptions (conf w) req resp = None"
    and b: "from_http_request Request_new now req (Some resp) = Inr r"
    and c: "\<not> REQUEST_USE_CACHE (conf w) \<and> REQUEST_BUFFER_SIZE (conf w) \<noteq> 0"
  show "REQUEST_BUFFER (conf (fst (process_response exceptions key now ok req resp w)))
          = REQUEST_BUFFER (conf w) @ [r]
      \<or> last (bulk_log (fst (process_response exceptions key now ok req resp w)))
          = REQUEST_BUFFER (conf w) @ [r]"
    using c by (simp add: process_response_admitted[OF a] create_buffered[OF b])
qed

lemma ex_lower_put: "lower ''PUT'' = ''put''"
  by (simp add: lower_def lower_char_def)

lemma ex_lower_get: "lower ''GET'' = ''get''"
  by (simp add: lower_def lower_char_def)

theorem admission_filter_gates_submit_witness:
  "rejected_by ex_exceptions (conf (ex_world ex_conf)) (ex_req\<lparr>req_method := ''PUT''\<rparr>) ex_resp
     = Some 1
   \<and> process_response ex_exceptions ex_key 1 True (ex_req\<lparr>req_method := ''PUT''\<rparr>) ex_resp
        (ex_world ex_conf) = (ex_world ex_conf, Inr ex_resp)
   \<and> rejected_by ex_exceptions (conf (ex_world ex_conf)) ex_req ex_resp = None
   \<and> from_http_request Request_new 1 ex_req (Some ex_resp) = Inr (ex_record 1)
   \<and> \<not> REQUEST_USE_CACHE (conf (ex_world ex_conf))
   \<and> REQUEST_BUFFER_SIZE (conf (ex_world ex_conf)) = 0
   \<and> process_response ex_exceptions ex_key 1 True ex_req ex_resp (ex_world ex_conf)
       = ((ex_world ex_conf)\<lparr>db := [ex_record 1]\<rparr>, Inr ex_resp)
   \<and> rejected_by ex_exceptions (conf (ex_world (ex_conf\<lparr>REQUEST_USE_CACHE := True\<rparr>)))
        ex_req ex_resp = None
   \<and> REQUEST_USE_CACHE (conf (ex_world (ex_conf\<lparr>REQUEST_USE_CACHE := True\<rparr>)))
   \<and> map_of (cache (fst (process_response ex_exceptions ex_key 1 True ex_req ex_resp
        (ex_world (ex_conf\<lparr>REQUEST_USE_CACHE := True\<rparr>))))) (ex_key (ex_record 1))
       = Some \<lparr>cached = ex_record 1, timeout = 0\<rparr>
   \<and> rejected_by ex_exceptions (conf (ex_world (ex_conf\<lparr>REQUEST_BUFFER_SIZE := 3\<rparr>)))
        ex_req ex_resp = None
   \<and> \<not> REQUEST_USE_CACHE (conf (ex_world (ex_conf\<lparr>REQUEST_BUFFER_SIZE := 3\<rparr>)))
   \<and> REQUEST_BUFFER_SIZE (conf (ex_world (ex_conf\<lparr>REQUEST_BUFFER_SIZE := 3\<rparr>))) \<noteq> 0
   \<and> REQUEST_BUFFER (conf (fst (process_response ex_exceptions ex_key 1 True ex_req ex_resp
        (ex_world (ex_conf\<lparr>REQUEST_BUFFER_SIZE := 3\<rparr>))))) = [ex_record 1]"
proof -
  have r1: "rejected_by ex_exceptions (conf (ex_world ex_conf)) (ex_req\<lparr>req_method := ''PUT''\<rparr>)
      ex_resp = Some 1"
    by (simp add: rejected_by_def ex_lower_put ex_world_def ex_conf_def)
  have r2: "rejected_by ex_exceptions (conf (ex_world ex_conf)) ex_req ex_resp = None"
    by (simp add: rejected_by_def ex_lower_get ex_world_def ex_conf_def ex_req_def
        ex_exceptions_def ex_user_def)
  have s: "fst (save True (ex_record 1) (ex_world ex_conf)) = (ex_world ex_conf)\<lparr>db := [ex_record 1]\<rparr>"
    by (simp add: save_True ex_world_def ex_conf_def)
  have c: "\<not> REQUEST_USE_CACHE (conf (ex_world ex_conf))
      \<and> REQUEST_BUFFER_SIZE (conf (ex_world ex_conf)) = 0"
    by (simp add: ex_world_def ex_conf_def)
  have p1: "process_response ex_exceptions ex_key 1 True (ex_req\<lparr>req_method := ''PUT''\<rparr>)
      ex_resp (ex_world ex_conf) = (ex_world ex_conf, Inr ex_resp)"
    using admission_filter_gates_submit[of ex_exceptions "ex_world ex_conf"
        "ex_req\<lparr>req_method := ''PUT''\<rparr>" ex_resp ex_key 1 True] r1
    by simp
  have "\<forall>r. from_http_request Request_new 1 ex_req (Some ex_resp) = Inr r \<longrightarrow>
      (\<not> REQUEST_USE_CACHE (conf (ex_world ex_conf))
         \<and> REQUEST_BUFFER_SIZE (conf (ex_world ex_conf)) = 0 \<longrightarrow>
       process_response ex_exceptions ex_key 1 True ex_req ex_resp (ex_world ex_conf)
         = (fst (save True r (ex_world ex_conf)), Inr ex_resp))"
    using admission_filter_gates_submit[of ex_exceptions "ex_world ex_conf" ex_req ex_resp
        ex_key 1 True] r2
    by blast
  then have p2: "process_response ex_exceptions ex_key 1 True ex_req ex_resp (ex_world ex_conf)
      = (fst (save True (ex_record 1) (ex_world ex_conf)), Inr ex_resp)"
    using ex_built[of 1] c by blast
  let ?wc = "ex_world (ex_conf\<lparr>REQUEST_USE_CACHE := True\<rparr>)"
  let ?wb = "ex_world (ex_conf\<lparr>REQUEST_BUFFER_SIZE := 3\<rparr>)"
  have r3: "rejected_by ex_exceptions (conf ?wc) ex_req ex_resp = None"
    by (simp add: rejected_by_def ex_lower_get ex_world_def ex_conf_def ex_req_def
        ex_exceptions_def ex_user_def)
  have r4: "rejected_by ex_exceptions (conf ?wb) ex_req ex_resp = None"
    by (simp add: rejected_by_def ex_lower_get ex_world_def ex_conf_def ex_req_def
        ex_exceptions_def ex_user_def)
  have cc: "REQUEST_USE_CACHE (conf ?wc)" by (simp add: ex_world_def)
  have cb: "\<not> REQUEST_USE_CACHE (conf ?wb) \<and> REQUEST_BUFFER_SIZE (conf ?wb) \<noteq> 0"
    by (simp add: ex_world_def ex_conf_def)
  have p3: "map_of (cache (fst (process_response ex_exceptions ex_key 1 True ex_req ex_resp ?wc)))
      (ex_key (ex_record 1)) = Some \<lparr>cached = ex_record 1, timeout = 0\<rparr>"
    using admission_filter_gates_submit[of ex_exceptions ?wc ex_req ex_resp ex_key 1 True]
      r3 ex_built[of 1] cc
    by blast
  have p4: "REQUEST_BUFFER (conf (fst (process_response ex_exceptions ex_key 1 True ex_req ex_resp
      ?wb))) = [ex_record 1]"
  proof -
    have b: "REQUEST_BUFFER (conf ?wb) = [] \<and> REQUEST_BUFFER_SIZE (conf ?wb) = 3"
      by (simp add: ex_world_def ex_conf_def)
    show ?thesis
      using cb by (simp add: process_response_admitted[OF r4] create_buffered[OF ex_built] b)
  qed
  show ?thesis
    using r1 p1 r2 ex_built[of 1] c p2 r3 cc p3 r4 cb p4 by (simp add: s)
qed

section \<open>Draining the cache: \<open>persist_cached\<close>\<close>

lemma cache_keys_after_delete: "cache_keys pm pat (cache_delete_pattern pm pat c) = []"
  by (induction c) (auto simp: cache_keys_def cache_delete_pattern_def)

text \<open>
  The call under the cached strategy, with the effective pattern \<open>pat\<close> and the batch
  \<open>batch\<close> of the records found under it.
\<close>

lemma persist_cached_unfold:
  assumes "REQUEST_USE_CACHE (conf w)"
    and "pat = (case cache_pattern of
                  None \<Rightarrow> REQUEST_CACHE_PREFIX (conf w) @ ''*''
                | Some p \<Rightarrow> if p = [] then REQUEST_CACHE_PREFIX (conf w) @ ''*'' else p)"
    and "batch = dict_values (cache_get_many (cache w) (cache_keys pm pat (cache w)))"
  shows "persist_cached pm ok cache_pattern w =
     (if ok \<or> batch = []
      then (w\<lparr>bulk_log := bulk_log w @ [batch], db := db w @ batch,
              cache := cache_delete_pattern pm pat (cache w)\<rparr>, Inr batch)
      else (w\<lparr>bulk_log := bulk_log w @ [batch]\<rparr>, Inl StorageError))"
  using assms by (auto simp: persist_cached_def bulk_create_def Let_def)

text \<open>
  C2 does not hold of the code. \<open>persist_cached\<close> calls \<open>bulk_create\<close> with no handler
  around it, where the flush of the buffer in \<open>create_from_http_request\<close> wraps the same
  call in \<open>try\<close> and clears the buffer whatever happens. So, with \<open>pat\<close> the pattern in force
  and \<open>batch\<close> the records found under it: only when the bulk insert succeeds (or the
  batch is empty, so that no write is attempted) does the call return the batch and
  leave no key matching the pattern in the cache, every other entry staying; when the
  bulk insert of a non-empty batch fails, the storage error reaches the caller and
  \<open>delete_pattern\<close> is never run, so the cache is as it was. The instance below runs both
  outcomes on a cache with one entry under the prefix: after the failed insert the key
  \<open>request_1\<close> is still listed.
\<close>

theorem persist_cached_outcomes:
  assumes "REQUEST_USE_CACHE (conf w)"
    and "pat = (case cache_pattern of
                  None \<Rightarrow> REQUEST_CACHE_PREFIX (conf w) @ ''*''
                | Some p \<Rightarrow> if p = [] then REQUEST_CACHE_PREFIX (conf w) @ ''*'' else p)"
    and "batch = dict_values (cache_get_many (cache w) (cache_keys pm pat (cache w)))"
  shows "(ok \<or> batch = [] \<longrightarrow>
            persist_cached pm ok cache_pattern w =
              (w\<lparr>bulk_log := bulk_log w @ [batch], db := db w @ batch,
                 cache := cache_delete_pattern pm pat (cache w)\<rparr>, Inr batch)
            \<and> cache_keys pm pat (cache (fst (persist_cached pm ok cache_pattern w))) = []
            \<and> (\<forall>kv\<in>set (cache w). \<not> pm pat (fst kv) \<longrightarrow>
                  kv \<in> set (cache (fst (persist_cached pm ok cache_pattern w)))))
       \<and> (\<not> ok \<and> batch \<noteq> [] \<longrightarrow>
            persist_cached pm ok cache_pattern w =
              (w\<lparr>bulk_log := bulk_log w @ [batch]\<rparr>, Inl StorageError)
            \<and> cache (fst (persist_cached pm ok cache_pattern w)) = cache w)"
proof -
  note u = persist_cached_unfold[OF assms]
  have kept: "\<forall>kv\<in>set (cache w). \<not> pm pat (fst kv) \<longrightarrow>
      kv \<in> set (cache_delete_pattern pm pat (cache w))"
    by (simp add: cache_delete_pattern_def)
  show ?thesis
    using kept by (simp add: u cache_keys_after_delete)
qed

theorem persist_cached_outcomes_witness:
  "REQUEST_USE_CACHE (conf ex_cached_world)
   \<and> ''request_*'' = (case None of
                  None \<Rightarrow> REQUEST_CACHE_PREFIX (conf ex_cached_world) @ ''*''
                | Some p \<Rightarrow> if p = [] then REQUEST_CACHE_PREFIX (conf ex_cached_world) @ ''*''
                            else p)
   \<and> [ex_record 1] = dict_values (cache_get_many (cache ex_cached_world)
         (cache_keys ex_pm ''request_*'' (cache ex_cached_world)))
   \<and> persist_cached ex_pm True None ex_cached_world =
       (ex_cached_world\<lparr>bulk_log := [[ex_record 1]], db := [ex_record 1],
          cache := [(''other'', \<lparr>cached = ex_record 2, timeout = 0\<rparr>)]\<rparr>, Inr [ex_record 1])
   \<and> persist_cached ex_pm False None ex_cached_world =
       (ex_cached_world\<lparr>bulk_log := [[ex_record 1]]\<rparr>, Inl StorageError)
   \<and> cache_keys ex_pm ''request_*''
       (cache (fst (persist_cached ex_pm False None ex_cached_world))) = [''request_1'']"
proof -
  have h1: "REQUEST_USE_CACHE (conf ex_cached_world)"
    by (simp add: ex_cached_world_def ex_world_def)
  have h2: "''request_*'' = (case None of
                  None \<Rightarrow> REQUEST_CACHE_PREFIX (conf ex_cached_world) @ ''*''
                | Some p \<Rightarrow> if p = [] then REQUEST_CACHE_PREFIX (conf ex_cached_world) @ ''*''
                            else p)"
    by (simp add: ex_cached_world_def ex_world_def ex_conf_def)
  have h3: "[ex_record 1] = dict_values (cache_get_many (cache ex_cached_world)
         (cache_keys ex_pm ''request_*'' (cache ex_cached_world)))"
    by (simp add: ex_cached_world_def cache_keys_def cache_get_many_def dict_values_def
        ex_pm_def map_filter_simps)
  have del: "cache_delete_pattern ex_pm ''request_*'' (cache ex_cached_world)
      = [(''other'', \<lparr>cached = ex_record 2, timeout = 0\<rparr>)]"
    by (simp add: ex_cached_world_def cache_delete_pattern_def ex_pm_def)
  have pfx: "REQUEST_CACHE_PREFIX (conf ex_cached_world) = ''request_''"
    by (simp add: ex_cached_world_def ex_world_def ex_conf_def)
  have e: "bulk_log ex_cached_world = [] \<and> db ex_cached_world = []"
    by (simp add: ex_cached_world_def ex_world_def)
  have k: "cache_keys ex_pm ''request_*'' (cache ex_cached_world) = [''request_1'']"
    by (simp add: ex_cached_world_def cache_keys_def ex_pm_def)
  have t: "persist_cached ex_pm True None ex_cached_world =
       (ex_cached_world\<lparr>bulk_log := [[ex_record 1]], db := [ex_record 1],
          cache := [(''other'', \<lparr>cached = ex_record 2, timeout = 0\<rparr>)]\<rparr>, Inr [ex_record 1])"
    using persist_cached_outcomes[OF h1 h2 h3, of True] by (simp add: del e)
  have f: "persist_cached ex_pm False None ex_cached_world =
       (ex_cached_world\<lparr>bulk_log := [[ex_record 1]]\<rparr>, Inl StorageError)
     \<and> cache (fst (persist_cached ex_pm False None ex_cached_world)) = cache ex_cached_world"
    using persist_cached_outcomes[OF h1 h2 h3, of False] by (simp add: e)
  from f have kf: "cache_keys ex_pm ''request_*''
       (cache (fst (persist_cached ex_pm False None ex_cached_world))) = [''request_1'']"
    using k by metis
  show ?thesis
    using h1 h2 h3 t f kf by blast
qed

text \<open>
  After a call that returns (its bulk insert did not fail), a second call with the same
  pattern on the world it left returns the empty list, whatever the database would
  answer.
\<close>

lemma second_flush_empty:
  assumes "persist_cached pm ok1 cache_pattern w = (w1, Inr created)"
  shows "snd (persist_cached pm ok2 cache_pattern w1) = Inr []"
proof (cases "REQUEST_USE_CACHE (conf w)")
  case False
  then show ?thesis using assms by (auto simp: persist_cached_def)
next
  case True
  define pat where "pat = (case cache_pattern of
                  None \<Rightarrow> REQUEST_CACHE_PREFIX (conf w) @ ''*''
                | Some p \<Rightarrow> if p = [] then REQUEST_CACHE_PREFIX (conf w) @ ''*'' else p)"
  define batch where
    "batch = dict_values (cache_get_many (cache w) (cache_keys pm pat (cache w)))"
  from assms have w1: "w1 = w\<lparr>bulk_log := bulk_log w @ [batch], db := db w @ batch,
              cache := cache_delete_pattern pm pat (cache w)\<rparr>"
    by (auto simp: persist_cached_unfold[OF True pat_def batch_def] split: if_splits)
  have cw: "conf w1 = conf w" by (simp add: w1)
  have c1: "REQUEST_USE_CACHE (conf w1)" using True by (simp add: cw)
  have p1: "pat = (case cache_pattern of
                  None \<Rightarrow> REQUEST_CACHE_PREFIX (conf w1) @ ''*''
                | Some p \<Rightarrow> if p = [] then REQUEST_CACHE_PREFIX (conf w1) @ ''*'' else p)"
    by (simp add: pat_def cw split: option.splits)
  have "dict_values (cache_get_many (cache w1) (cache_keys pm pat (cache w1))) = []"
    by (simp add: w1 cache_keys_after_delete cache_get_many_def dict_values_def map_filter_simps)
  then show ?thesis
    by (simp add: persist_cached_unfold[OF c1 p1 refl])
qed

text \<open>
  C8 does not hold of the code. The drain is idempotent only after a call that returns.
  When the bulk insert of a non-empty batch fails, \<open>persist_cached\<close> ends in the storage
  error before \<open>delete_pattern\<close> (it lacks the \<open>try\<close> and the unconditional clear of the
  buffer flush), the entries stay in the cache, and a second call with the same pattern
  and no submit in between, whose write succeeds, returns the whole batch again instead
  of the empty collection. The instance below is a cache with one entry under the
  prefix: the second call returns that record.
\<close>

theorem second_flush_after_failed_flush:
  assumes "REQUEST_USE_CACHE (conf w)"
    and "pat = (case cache_pattern of
                  None \<Rightarrow> REQUEST_CACHE_PREFIX (conf w) @ ''*''
                | Some p \<Rightarrow> if p = [] then REQUEST_CACHE_PREFIX (conf w) @ ''*'' else p)"
    and "batch = dict_values (cache_get_many (cache w) (cache_keys pm pat (cache w)))"
    and "batch \<noteq> []"
  shows "persist_cached pm False cache_pattern w =
           (w\<lparr>bulk_log := bulk_log w @ [batch]\<rparr>, Inl StorageError)
       \<and> snd (persist_cached pm True cache_pattern
               (fst (persist_cached pm False cache_pattern w))) = Inr batch"
proof -
  let ?w1 = "w\<lparr>bulk_log := bulk_log w @ [batch]\<rparr>"
  have first: "persist_cached pm False cache_pattern w = (?w1, Inl StorageError)"
    using assms(4) by (simp add: persist_cached_unfold[OF assms(1,2,3)])
  have c1: "REQUEST_USE_CACHE (conf ?w1)" using assms(1) by simp
  have p1: "pat = (case cache_pattern of
                  None \<Rightarrow> REQUEST_CACHE_PREFIX (conf ?w1) @ ''*''
                | Some p \<Rightarrow> if p = [] then REQUEST_CACHE_PREFIX (conf ?w1) @ ''*'' else p)"
    by (simp add: assms(2) split: option.splits)
  have b1: "batch = dict_values (cache_get_many (cache ?w1) (cache_keys pm pat (cache ?w1)))"
    by (simp add: assms(3))
  have "snd (persist_cached pm True cache_pattern ?w1) = Inr batch"
    by (simp add: persist_cached_unfold[OF c1 p1 b1])
  then show ?thesis
    by (simp add: first)
qed

theorem second_flush_after_failed_flush_witness:
  "REQUEST_USE_CACHE (conf ex_cached_world)
   \<and> ''request_*'' = (case None of
                  None \<Rightarrow> REQUEST_CACHE_PREFIX (conf ex_cached_world) @ ''*''
                | Some p \<Rightarrow> if p = [] then REQUEST_CACHE_PREFIX (conf ex_cached_world) @ ''*''
                            else p)
   \<and> [ex_record 1] = dict_values (cache_get_many (cache ex_cached_world)
         (cache_keys ex_pm ''request_*'' (cache ex_cached_world)))
   \<and> [ex_record 1] \<noteq> []
   \<and> persist_cached ex_pm False None ex_cached_world =
       (ex_cached_world\<lparr>bulk_log := [[ex_record 1]]\<rparr>, Inl StorageError)
   \<and> snd (persist_cached ex_pm True None (fst (persist_cached ex_pm False None ex_cached_world)))
       = Inr [ex_record 1]"
proof -
  have h1: "REQUEST_USE_CACHE (conf ex_cached_world)"
    by (simp add: ex_cached_world_def ex_world_def)
  have h2: "''request_*'' = (case None of
                  None \<Rightarrow> REQUEST_CACHE_PREFIX (conf ex_cached_world) @ ''*''
                | Some p \<Rightarrow> if p = [] then REQUEST_CACHE_PREFIX (conf ex_cached_world) @ ''*''
                            else p)"
    by (simp add: ex_cached_world_def ex_world_def ex_conf_def)
  have h3: "[ex_record 1] = dict_values (cache_get_many (cache ex_cached_world)
         (cache_keys ex_pm ''request_*'' (cache ex_cached_world)))"
    by (simp add: ex_cached_world_def cache_keys_def cache_get_many_def dict_values_def
        ex_pm_def map_filter_simps)
  have h4: "[ex_record 1] \<noteq> []" by simp
  have pfx: "REQUEST_CACHE_PREFIX (conf ex_cached_world) = ''request_''"
    by (simp add: ex_cached_world_def ex_world_def ex_conf_def)
  have e: "bulk_log ex_cached_world = []"
    by (simp add: ex_cached_world_def ex_world_def)
  note r = second_flush_after_failed_flush[OF h1 h2 h3 h4, unfolded e append_Nil]
  show ?thesis
    using h1 h2 h3 h4 r by blast
qed

section \<open>What the buffered flush stores\<close>

lemma from_http_request_ip_user:
  assumes "from_http_request Request_new now req resp = Inr r"
  shows "ip r = client_ip req
       \<and> user r = (case req_user req of
                     None \<Rightarrow> None
                   | Some u \<Rightarrow> if is_authenticated u then Some u else None)"
  using assms
  by (auto simp: from_http_request_def Request_new_def Let_def
      split: option.splits if_splits)

text \<open>
  C4 does not hold of the code. The call that takes the buffer over the threshold hands
  the buffered objects to \<open>bulk_create\<close>, which inserts them as they are and never calls
  \<open>save\<close>, the only place where the address and the user are rewritten. With a write that
  succeeds, the rows added are the buffer and the new record, each with the client
  address and the logged-in user as captured, whatever \<open>REQUEST_LOG_IP\<close>,
  \<open>REQUEST_ANONYMOUS_IP\<close> and \<open>REQUEST_LOG_USER\<close> say. The instance below runs the call with
  IP and user logging both off: the two rows stored carry \<open>203.0.113.42\<close> and the user,
  not the dummy address \<open>1.1.1.1\<close> and no user.
\<close>

theorem buffered_flush_stores_unredacted:
  assumes "from_http_request Request_new now req resp = Inr r"
    and "\<not> REQUEST_USE_CACHE (conf w)" and "REQUEST_BUFFER_SIZE (conf w) \<noteq> 0"
    and "int (length (REQUEST_BUFFER (conf w))) + 1 > REQUEST_BUFFER_SIZE (conf w)"
  shows "db (fst (create_from_http_request key now True req resp True w))
           = db w @ REQUEST_BUFFER (conf w) @ [r]
       \<and> ip r = client_ip req
       \<and> user r = (case req_user req of
                     None \<Rightarrow> None
                   | Some u \<Rightarrow> if is_authenticated u then Some u else None)"
  using assms(4) from_http_request_ip_user[OF assms(1)]
  by (simp add: create_buffered[OF assms(1,2,3)])

theorem buffered_flush_stores_unredacted_witness:
  "from_http_request Request_new 2 ex_req (Some ex_resp) = Inr (ex_record 2)
   \<and> \<not> REQUEST_LOG_IP (conf (ex_world (ex_conf\<lparr>REQUEST_LOG_IP := False,
          REQUEST_LOG_USER := False, REQUEST_BUFFER_SIZE := 1, REQUEST_BUFFER := [ex_record 1]\<rparr>)))
   \<and> \<not> REQUEST_LOG_USER (conf (ex_world (ex_conf\<lparr>REQUEST_LOG_IP := False,
          REQUEST_LOG_USER := False, REQUEST_BUFFER_SIZE := 1, REQUEST_BUFFER := [ex_record 1]\<rparr>)))
   \<and> REQUEST_IP_DUMMY (conf (ex_world (ex_conf\<lparr>REQUEST_LOG_IP := False,
          REQUEST_LOG_USER := False, REQUEST_BUFFER_SIZE := 1, REQUEST_BUFFER := [ex_record 1]\<rparr>)))
       = ''1.1.1.1''
   \<and> map ip (db (fst (create_from_http_request ex_key 2 True ex_req (Some ex_resp) True
        (ex_world (ex_conf\<lparr>REQUEST_LOG_IP := False, REQUEST_LOG_USER := False,
          REQUEST_BUFFER_SIZE := 1, REQUEST_BUFFER := [ex_record 1]\<rparr>)))))
       = [''203.0.113.42'', ''203.0.113.42'']
   \<and> map user (db (fst (create_from_http_request ex_key 2 True ex_req (Some ex_resp) True
        (ex_world (ex_conf\<lparr>REQUEST_LOG_IP := False, REQUEST_LOG_USER := False,
          REQUEST_BUFFER_SIZE := 1, REQUEST_BUFFER := [ex_record 1]\<rparr>)))))
       = [Some ex_user, Some ex_user]"
proof -
  let ?w = "ex_world (ex_conf\<lparr>REQUEST_LOG_IP := False, REQUEST_LOG_USER := False,
          REQUEST_BUFFER_SIZE := 1, REQUEST_BUFFER := [ex_record 1]\<rparr>)"
  have h2: "\<not> REQUEST_USE_CACHE (conf ?w)" by (simp add: ex_world_def ex_conf_def)
  have h3: "REQUEST_BUFFER_SIZE (conf ?w) \<noteq> 0" by (simp add: ex_world_def)
  have h4: "int (length (REQUEST_BUFFER (conf ?w))) + 1 > REQUEST_BUFFER_SIZE (conf ?w)"
    by (simp add: ex_world_def)
  have d: "db ?w = [] \<and> REQUEST_BUFFER (conf ?w) = [ex_record 1]"
    by (simp add: ex_world_def)
  have "db (fst (create_from_http_request ex_key 2 True ex_req (Some ex_resp) True ?w))
      = [ex_record 1, ex_record 2]"
    using buffered_flush_stores_unredacted[OF ex_built[of 2] h2 h3 h4, of ex_key]
    by (simp add: d)
  then show ?thesis
    by (simp add: ex_built ex_world_def ex_conf_def ex_record_def)
qed

section \<open>Period filters on unparseable components\<close>

text \<open>
  C9, as stated, fails: \<open>month\<close> given a year and an empty month raises \<open>TypeError\<close>. The
  guard \<open>if year and month\<close> sends an empty or missing component to the \<open>raise\<close>, which
  \<open>except ValueError\<close> does not catch.
\<close>

theorem month_empty_component_raises:
  "month ex_strptime [] (Some ''2021'') (Some []) ''%b'' None = Inl TypeError"
  by (simp add: month_def)

text \<open>
  C9, amended. When every component is a non-empty string and the components do not parse
  as a date, \<open>month\<close>, \<open>week\<close> and \<open>day\<close> return \<open>None\<close> and raise nothing (\<open>week\<close> has no
  guard, so this holds of it for every pair of strings). When a component of \<open>month\<close> or
  \<open>day\<close> is empty or missing, the filter raises \<open>TypeError\<close>.
\<close>

theorem period_filters_fail_soft:
  "(truthy year \<and> truthy month_arg
      \<and> parse_date strptime (str_of year @ str_of month_arg) (''%Y'' @ month_format) = None \<longrightarrow>
        month strptime qs year month_arg month_format None = Inr None)
   \<and> (parse_date strptime (y @ ''-0-'' @ week_arg) ''%Y-%w-%U'' = None \<longrightarrow>
        week strptime qs y week_arg = Inr None)
   \<and> (truthy year \<and> truthy month_arg \<and> truthy day_arg
      \<and> strptime (str_of year @ str_of month_arg @ str_of day_arg)
           (''%Y'' @ month_format @ day_format) = None \<longrightarrow>
        day strptime qs year month_arg day_arg month_format day_format None = Inr None)
   \<and> (\<not> (truthy year \<and> truthy month_arg) \<longrightarrow>
        month strptime qs year month_arg month_format None = Inl TypeError)
   \<and> (\<not> (truthy year \<and> truthy month_arg \<and> truthy day_arg) \<longrightarrow>
        day strptime qs year month_arg day_arg month_format day_format None = Inl TypeError)"
  by (simp add: month_def week_def day_def)

theorem period_filters_fail_soft_witness:
  "truthy (Some ''2021'') \<and> truthy (Some ''Foo'') \<and> truthy (Some ''99'')
   \<and> parse_date ex_strptime (str_of (Some ''2021'') @ str_of (Some ''Foo'')) (''%Y'' @ ''%b'')
       = None
   \<and> month ex_strptime ex_rows (Some ''2021'') (Some ''Foo'') ''%b'' None = Inr None
   \<and> parse_date ex_strptime (''2021'' @ ''-0-'' @ ''99'') ''%Y-%w-%U'' = None
   \<and> week ex_strptime ex_rows ''2021'' ''99'' = Inr None
   \<and> ex_strptime (str_of (Some ''2021'') @ str_of (Some ''Foo'') @ str_of (Some ''99''))
        (''%Y'' @ ''%b'' @ ''%d'') = None
   \<and> day ex_strptime ex_rows (Some ''2021'') (Some ''Foo'') (Some ''99'') ''%b'' ''%d'' None
       = Inr None
   \<and> month (\<lambda>s fmt. Some (2021, 2, 30)) ex_rows (Some ''2021'') (Some ''Feb'') ''%b'' None
       = Inr None
   \<and> \<not> (truthy None \<and> truthy (Some ''Foo''))
   \<and> month ex_strptime ex_rows None (Some ''Foo'') ''%b'' None = Inl TypeError
   \<and> \<not> (truthy (Some ''2021'') \<and> truthy (Some ''Foo'') \<and> truthy None)
   \<and> day ex_strptime ex_rows (Some ''2021'') (Some ''Foo'') None ''%b'' ''%d'' None
       = Inl TypeError"
proof -
  have p: "parse_date (\<lambda>s fmt. Some (2021, 2, 30)) (str_of (Some ''2021'') @ str_of (Some ''Feb''))
      (''%Y'' @ ''%b'') = None"
    by (simp add: parse_date_def datetime_date_def days_in_month_def is_leap_def)
  have q: "parse_date ex_strptime s fmt = None" for s fmt
    by (simp add: parse_date_def ex_strptime_def)
  show ?thesis
    using period_filters_fail_soft[of "Some ''2021''" "Some ''Foo''" ex_strptime "''%b''" ex_rows
        "''2021''" "''99''" "Some ''99''" "''%d''"]
      period_filters_fail_soft[of "Some ''2021''" "Some ''Feb''" "\<lambda>s fmt. Some (2021, 2, 30)"
        "''%b''" ex_rows "''2021''" "''99''" "Some ''99''" "''%d''"]
      period_filters_fail_soft[of None "Some ''Foo''" ex_strptime "''%b''" ex_rows
        "''2021''" "''99''" "Some ''99''" "''%d''"]
      period_filters_fail_soft[of "Some ''2021''" "Some ''Foo''" ex_strptime "''%b''" ex_rows
        "''2021''" "''99''" None "''%d''"] p
    by (simp add: q ex_strptime_def)
qed

section \<open>Active users\<close>

text \<open>
  C10. Whenever \<open>active_users\<close> returns a set, the null user is not in it and every member
  is the user of a stored row. Rows without a user play no part: the result (or the
  error of the time arithmetic) is the same on the store with those rows removed, and
  the same after adding such a row, for every clock reading and every window. Without
  a window the call returns the users of all rows that have one.
\<close>

theorem active_users_skips_null_users:
  "(\<forall>S. active_users now options w = Inr S \<longrightarrow>
        None \<notin> S \<and> S \<subseteq> user ` set (db w))
   \<and> active_users now options w
       = active_users now options (w\<lparr>db := filter (\<lambda>r. user r \<noteq> None) (db w)\<rparr>)
   \<and> (\<forall>r. user r = None \<longrightarrow>
        active_users now options (w\<lparr>db := db w @ [r]\<rparr>) = active_users now options w)
   \<and> active_users now [] w = Inr (user ` {r \<in> set (db w). user r \<noteq> None})"
  by (auto simp: active_users_def Let_def split: sum.splits)

theorem active_users_skips_null_users_witness:
  "user (hd ex_rows) = None
   \<and> active_users 1000000000 [(''minutes'', 15)] ((ex_world ex_conf)\<lparr>db := ex_rows\<rparr>)
       = Inr {Some ex_user}
   \<and> None \<notin> {Some ex_user}"
proof -
  have e: "active_users 1000000000 [(''minutes'', 15)] ((ex_world ex_conf)\<lparr>db := ex_rows\<rparr>)
       = Inr {Some ex_user}"
    by (simp add: active_users_def timedelta_checked_def timedelta_unit_def datetime_minus_def
        usec_per_day_def ex_rows_def ex_record_def ex_world_def Let_def del: set_filter)
  show ?thesis
    using active_users_skips_null_users[of 1000000000 "[(''minutes'', 15)]"
        "(ex_world ex_conf)\<lparr>db := ex_rows\<rparr>"] e
    by (simp add: ex_rows_def)
qed

end
